theory Spec2Isabelle
  imports Complex_Main
begin

section \<open>Values and documents\<close>

text \<open>
  A document is a Go \<^verbatim>\<open>map[string]interface{}\<close>. The dynamic values the program puts
  into such a map, or gets out of \<^verbatim>\<open>encoding/json\<close>, are: \<^verbatim>\<open>nil\<close>, \<^verbatim>\<open>bool\<close>, \<^verbatim>\<open>int\<close>
  (schema defaults, migrated integers, the exported row id), \<^verbatim>\<open>float64\<close> (every decoded
  JSON number), \<^verbatim>\<open>string\<close>, \<^verbatim>\<open>[]string\<close> (schema default of a list field, the list
  editor), \<^verbatim>\<open>[]interface{}\<close> and \<^verbatim>\<open>map[string]interface{}\<close> (decoded arrays and objects).
  The functions modelled here never compute with a \<^verbatim>\<open>float64\<close>, they only carry it, so
  a \<^verbatim>\<open>float64\<close> is modelled by the real number it denotes. Go's \<^verbatim>\<open>int\<close> and \<^verbatim>\<open>int64\<close> are
  modelled by \<open>int\<close>: the only arithmetic on them is SQLite's choice of the next row id,
  one more than the largest so far, which SQLite refuses past the largest \<^verbatim>\<open>int64\<close>.
\<close>

datatype gval =
    GNil
  | GBool bool
  | GInt int
  | GFloat real
  | GString string
  | GStrings "string list"
  | GSlice "gval list"
  | GMap "string \<Rightarrow> gval option"

type_synonym doc = "string \<Rightarrow> gval option"

text \<open>
  A variable of map type can be \<^verbatim>\<open>nil\<close>; reading a \<^verbatim>\<open>nil\<close> map behaves like reading an empty
  one, writing to it panics. A map variable is therefore a \<open>doc option\<close>, \<open>None\<close> being the
  \<^verbatim>\<open>nil\<close> map.
\<close>

section \<open>Schema\<close>

text \<open>\<^verbatim>\<open>type FieldDef struct { Name string; Type string; Label string }\<close>\<close>

record FieldDef =
  Name :: string
  Type :: string
  Label :: string

subsection \<open>Schema loader: normalisation of the type token\<close>

text \<open>
  The structured (JSON) path of \<^verbatim>\<open>loadConfig\<close>, after decoding the field list:
  \<^verbatim>\<open>
  if fields[i].Label == "" { fields[i].Label = fields[i].Name }
  switch fields[i].Type {
  case "int", "string", "[]string", "link":
  default: fields[i].Type = "string" }
  \<close>
\<close>

definition normalizeTypeJSON :: "string \<Rightarrow> string" where
  "normalizeTypeJSON typ =
     (if typ = ''int'' \<or> typ = ''string'' \<or> typ = ''[]string'' \<or> typ = ''link''
      then typ else ''string'')"

definition normalizeFieldJSON :: "FieldDef \<Rightarrow> FieldDef" where
  "normalizeFieldJSON f =
     f\<lparr>Label := (if Label f = [] then Name f else Label f),
       Type := normalizeTypeJSON (Type f)\<rparr>"

definition loadConfigJSON :: "FieldDef list \<Rightarrow> FieldDef list" where
  "loadConfigJSON fs = map normalizeFieldJSON fs"

text \<open>
  The legacy path, for a line on which the field pattern matched name \<open>m[1]\<close> and type
  token \<open>m[2]\<close>:
  \<^verbatim>\<open>
  switch typ {
  case "int", "string", "[]string":
  default:
      if strings.HasPrefix(typ, "[]") { /* keep slice type as-is */ } else { typ = "string" } }
  fields = append(fields, FieldDef{Name: name, Type: typ, Label: name})
  \<close>
\<close>

definition hasPrefix :: "string \<Rightarrow> string \<Rightarrow> bool" where
  "hasPrefix s p = (take (length p) s = p)"

definition normalizeTypeLegacy :: "string \<Rightarrow> string" where
  "normalizeTypeLegacy typ =
     (if typ = ''int'' \<or> typ = ''string'' \<or> typ = ''[]string'' then typ
      else if hasPrefix typ ''[]'' then typ
      else ''string'')"

definition legacyField :: "string \<Rightarrow> string \<Rightarrow> FieldDef" where
  "legacyField name typ = \<lparr>Name = name, Type = normalizeTypeLegacy typ, Label = name\<rparr>"

text \<open>
  The type tokens the legacy path can see are the strings matched by the second group of
  its field pattern, \<^verbatim>\<open>((?:\[\])?[A-Za-z_][A-Za-z0-9_]*)\<close>.
\<close>

definition isLetter :: "char \<Rightarrow> bool" where
  "isLetter c = (c \<in> set ''ABCDEFGHIJKLMNOPQRSTUVWXYZabcdefghijklmnopqrstuvwxyz_'')"

definition isDigit :: "char \<Rightarrow> bool" where
  "isDigit c = (c \<in> set ''0123456789'')"

fun isIdent :: "string \<Rightarrow> bool" where
  "isIdent [] = False"
| "isIdent (c # cs) = (isLetter c \<and> list_all (\<lambda>d. isLetter d \<or> isDigit d) cs)"

definition legacyToken :: "string \<Rightarrow> bool" where
  "legacyToken typ = (isIdent typ \<or> (hasPrefix typ ''[]'' \<and> isIdent (drop 2 typ)))"

section \<open>Defaults and merging\<close>

text \<open>
  \<^verbatim>\<open>
  func getEmptyRowFromSchema(schema []FieldDef) map[string]interface{} {
      m := map[string]interface{}{}
      for _, f := range schema {
          switch f.Type {
          case "int":      m[f.Name] = 0
          case "string":   m[f.Name] = ""
          case "[]string": m[f.Name] = []string{}
          default:         m[f.Name] = "" } }
      return m }
  \<close>
\<close>

definition zeroValue :: "string \<Rightarrow> gval" where
  "zeroValue typ =
     (if typ = ''int'' then GInt 0
      else if typ = ''string'' then GString []
      else if typ = ''[]string'' then GStrings []
      else GString [])"

fun emptyRowLoop :: "FieldDef list \<Rightarrow> doc \<Rightarrow> doc" where
  "emptyRowLoop [] m = m"
| "emptyRowLoop (f # fs) m = emptyRowLoop fs (m(Name f \<mapsto> zeroValue (Type f)))"

definition getEmptyRowFromSchema :: "FieldDef list \<Rightarrow> doc" where
  "getEmptyRowFromSchema schema = emptyRowLoop schema Map.empty"

text \<open>
  \<^verbatim>\<open>
  func mergeWithSchema(schema []FieldDef, data map[string]interface{}) map[string]interface{} {
      m := getEmptyRowFromSchema(schema)
      if data == nil { return m }
      for k, v := range data { m[k] = v }
      return m }
  \<close>
  The loop stores every entry of \<open>data\<close> into \<open>m\<close>; the keys of a map are distinct, so
  the order of the iteration does not matter and the result is \<open>m ++ data\<close>.
\<close>

definition mergeWithSchema :: "FieldDef list \<Rightarrow> doc option \<Rightarrow> doc" where
  "mergeWithSchema schema data =
     (let m = getEmptyRowFromSchema schema
      in case data of None \<Rightarrow> m | Some d \<Rightarrow> m ++ d)"


text \<open>The field that decides the default of a key: the last one of the schema with that name.\<close>

definition fieldNamed :: "FieldDef list \<Rightarrow> string \<Rightarrow> FieldDef option" where
  "fieldNamed schema k = find (\<lambda>f. Name f = k) (rev schema)"

definition keyOf :: "doc option \<Rightarrow> string \<Rightarrow> gval option" where
  "keyOf data k = (case data of None \<Rightarrow> None | Some d \<Rightarrow> d k)"

section \<open>The libraries the program calls\<close>

text \<open>
  The values the SQLite driver hands to \<^verbatim>\<open>Scan\<close> into an \<^verbatim>\<open>interface{}\<close>: \<^verbatim>\<open>nil\<close>, \<^verbatim>\<open>int64\<close>,
  \<^verbatim>\<open>float64\<close>, \<^verbatim>\<open>[]byte\<close>, \<^verbatim>\<open>string\<close>, and for columns declared boolean or as a date, \<^verbatim>\<open>bool\<close>
  and \<^verbatim>\<open>time.Time\<close> (an instant, here a count of nanoseconds).
\<close>

datatype dval =
    DNil
  | DInt64 int
  | DFloat64 real
  | DBytes string
  | DString string
  | DBool bool
  | DTime int

text \<open>
  \<^verbatim>\<open>encoding/json\<close> and \<^verbatim>\<open>fmt\<close> are not part of the repository; the functions of
  the program take them as a parameter.
  \<^item> \<open>jsonMarshal\<close> is \<^verbatim>\<open>json.Marshal\<close> and \<open>jsonMarshalIndent\<close> is
    \<^verbatim>\<open>json.MarshalIndent(v, "", "  ")\<close>; \<open>None\<close> is an error.
  \<^item> \<open>jsonUnmarshal\<close> is \<^verbatim>\<open>json.Unmarshal\<close> into an \<^verbatim>\<open>interface{}\<close>; \<open>None\<close> is an error.
  \<^item> \<open>jsonUnmarshalViews\<close> is \<^verbatim>\<open>json.Unmarshal\<close> into a
    \<^verbatim>\<open>[]struct{Name string; Columns []string}\<close> whose error the caller discards: it
    gives what was decoded, a \<^verbatim>\<open>nil\<close> \<^verbatim>\<open>Columns\<close> being \<open>None\<close>.
  \<^item> \<open>fmtSprintf\<close> is \<^verbatim>\<open>fmt.Sprintf("%v", v)\<close>, and \<open>fmtSscanf\<close> is
    \<^verbatim>\<open>fmt.Sscanf(s, "%d", &n)\<close>, \<open>None\<close> when it reads no integer.
\<close>

record golib =
  jsonMarshal :: "gval \<Rightarrow> string option"
  jsonMarshalIndent :: "gval \<Rightarrow> string option"
  jsonUnmarshal :: "string \<Rightarrow> gval option"
  jsonUnmarshalViews :: "string \<Rightarrow> (string \<times> string list option) list"
  fmtSprintf :: "dval \<Rightarrow> string"
  fmtSscanf :: "string \<Rightarrow> int option"

text \<open>
  Decoding into a typed variable is decoding into an \<^verbatim>\<open>interface{}\<close> followed by a check of
  the shape. The outer \<open>None\<close> is the error; the inner option is the variable afterwards.
  Into a \<^verbatim>\<open>map[string]interface{}\<close> that is \<^verbatim>\<open>nil\<close>: \<^verbatim>\<open>null\<close> leaves it \<^verbatim>\<open>nil\<close>, an object fills
  it, anything else is an error.
\<close>

definition unmarshalMap :: "golib \<Rightarrow> string \<Rightarrow> doc option option" where
  "unmarshalMap L s =
     (case jsonUnmarshal L s of
        Some GNil \<Rightarrow> Some None
      | Some (GMap m) \<Rightarrow> Some (Some m)
      | _ \<Rightarrow> None)"

text \<open>
  Into a \<^verbatim>\<open>[]string\<close> that is \<^verbatim>\<open>nil\<close>: \<^verbatim>\<open>null\<close> leaves it \<^verbatim>\<open>nil\<close>; an array must hold strings,
  a \<^verbatim>\<open>null\<close> element staying the empty string.
\<close>

fun stringElem :: "gval \<Rightarrow> string option" where
  "stringElem (GString s) = Some s"
| "stringElem GNil = Some []"
| "stringElem _ = None"

definition unmarshalStrings :: "golib \<Rightarrow> string \<Rightarrow> string list option option" where
  "unmarshalStrings L s =
     (case jsonUnmarshal L s of
        Some GNil \<Rightarrow> Some None
      | Some (GSlice vs) \<Rightarrow>
          (case those (map stringElem vs) of None \<Rightarrow> None | Some xs \<Rightarrow> Some (Some xs))
      | _ \<Rightarrow> None)"

text \<open>
  Into a \<^verbatim>\<open>[]map[string]interface{}\<close>: \<^verbatim>\<open>null\<close> gives the \<^verbatim>\<open>nil\<close> slice, which a loop reads
  as the empty one; an array must hold objects, a \<^verbatim>\<open>null\<close> element being a \<^verbatim>\<open>nil\<close> map.
\<close>

fun mapElem :: "gval \<Rightarrow> doc option option" where
  "mapElem (GMap m) = Some (Some m)"
| "mapElem GNil = Some None"
| "mapElem _ = None"

definition mapsOf :: "gval \<Rightarrow> doc option list option" where
  "mapsOf v =
     (case v of
        GNil \<Rightarrow> Some []
      | GSlice vs \<Rightarrow> those (map mapElem vs)
      | _ \<Rightarrow> None)"

definition unmarshalMaps :: "golib \<Rightarrow> string \<Rightarrow> doc option list option" where
  "unmarshalMaps L s = (case jsonUnmarshal L s of None \<Rightarrow> None | Some v \<Rightarrow> mapsOf v)"

text \<open>What \<^verbatim>\<open>json.Marshal\<close> is given for a map variable and for a \<^verbatim>\<open>[]string\<close> variable.\<close>

definition mapValue :: "doc option \<Rightarrow> gval" where
  "mapValue data = (case data of None \<Rightarrow> GNil | Some m \<Rightarrow> GMap m)"

definition colsValue :: "string list option \<Rightarrow> gval" where
  "colsValue cols = (case cols of None \<Rightarrow> GNil | Some xs \<Rightarrow> GStrings xs)"

section \<open>The database\<close>

text \<open>
  A table with an \<^verbatim>\<open>INTEGER PRIMARY KEY AUTOINCREMENT\<close> column: its rows, and \<open>seq\<close>,
  the largest row id the table has ever held (its row of \<^verbatim>\<open>sqlite_sequence\<close>). A row
  id is a signed 64-bit integer. Failures of the storage itself (I/O) are not modelled; the
  \<^verbatim>\<open>data\<close> column holds text, as every statement of the program writes it.
\<close>

record 'a table =
  rows :: "(int \<times> 'a) list"
  seq :: int

record db =
  entries :: "string table"
  views :: "(string \<times> string) table"

definition emptyTable :: "'a table" where
  "emptyTable = \<lparr>rows = [], seq = 0\<rparr>"

definition emptyDB :: db where
  "emptyDB = \<lparr>entries = emptyTable, views = emptyTable\<rparr>"

definition lastRowid :: "'a table \<Rightarrow> int" where
  "lastRowid t = fold max (map fst (rows t)) (seq t)"

text \<open>
  \<^verbatim>\<open>INSERT INTO t (...) VALUES (...)\<close> without an id: one more than every id so far. Once the
  table has held the largest row id, \<open>2^63 - 1\<close>, the insert is refused (\<open>None\<close>, the error
  \<^verbatim>\<open>database or disk is full\<close>).
\<close>

definition maxRowid :: int where
  "maxRowid = 9223372036854775807"

definition tableInsert :: "'a \<Rightarrow> 'a table \<Rightarrow> (int \<times> 'a table) option" where
  "tableInsert x t =
     (if lastRowid t \<ge> maxRowid then None
      else (let i = lastRowid t + 1 in Some (i, t\<lparr>rows := rows t @ [(i, x)], seq := i\<rparr>)))"

text \<open>With an explicit id: refused (\<open>None\<close>) when the id is taken.\<close>

definition tableInsertAt :: "int \<Rightarrow> 'a \<Rightarrow> 'a table \<Rightarrow> 'a table option" where
  "tableInsertAt i x t =
     (if i \<in> fst ` set (rows t) then None
      else Some (t\<lparr>rows := rows t @ [(i, x)], seq := max (seq t) i\<rparr>))"

text \<open>\<^verbatim>\<open>UPDATE t SET ... WHERE id = ?\<close>: no row with that id is no error.\<close>

definition tableUpdate :: "int \<Rightarrow> 'a \<Rightarrow> 'a table \<Rightarrow> 'a table" where
  "tableUpdate k x t = t\<lparr>rows := map (\<lambda>r. if fst r = k then (k, x) else r) (rows t)\<rparr>"

definition tableDelete :: "int \<Rightarrow> 'a table \<Rightarrow> 'a table" where
  "tableDelete k t = t\<lparr>rows := filter (\<lambda>r. fst r \<noteq> k) (rows t)\<rparr>"

definition tableClear :: "'a table \<Rightarrow> 'a table" where
  "tableClear t = t\<lparr>rows := []\<rparr>"

text \<open>\<^verbatim>\<open>SELECT ... ORDER BY id\<close> and \<^verbatim>\<open>SELECT ... WHERE id = ?\<close> (first row).\<close>

definition tableSelect :: "'a table \<Rightarrow> (int \<times> 'a) list" where
  "tableSelect t = sort_key fst (rows t)"

definition tableLookup :: "int \<Rightarrow> 'a table \<Rightarrow> 'a option" where
  "tableLookup k t = map_option snd (find (\<lambda>r. fst r = k) (rows t))"

datatype err =
    ErrNoRows
  | ErrMarshal
  | ErrFull
  | ErrSyntax
  | ErrType
  | ErrUnknownFormat
  | PanicNilMap

section \<open>Document store\<close>

datatype Row = Row (Row_ID: int) (Row_Data: "doc option")

datatype View = View (View_ID: int) (View_Name: string) (View_Columns: "string list option")

text \<open>
  \<^verbatim>\<open>
  func insertRow(db *sql.DB, data map[string]interface{}) (int64, error) {
      js, err := json.Marshal(data)
      if err != nil { return 0, err }
      res, err := db.Exec("INSERT INTO entries (data) VALUES (?)", string(js))
      if err != nil { return 0, err }
      return res.LastInsertId() }
  \<close>
\<close>

definition insertRow :: "golib \<Rightarrow> doc option \<Rightarrow> db \<Rightarrow> (err + int) \<times> db" where
  "insertRow L data d =
     (case jsonMarshal L (mapValue data) of
        None \<Rightarrow> (Inl ErrMarshal, d)
      | Some js \<Rightarrow>
          (case tableInsert js (entries d) of
             None \<Rightarrow> (Inl ErrFull, d)
           | Some (i, t) \<Rightarrow> (Inr i, d\<lparr>entries := t\<rparr>)))"

text \<open>
  \<^verbatim>\<open>
  rows, err := db.Query("SELECT id, data FROM entries ORDER BY id")
  for rows.Next() {
      ... rows.Scan(&id, &dataStr) ...
      var m map[string]interface{}
      if err := json.Unmarshal([]byte(dataStr), &m); err != nil {
          m = map[string]interface{}{"_raw": dataStr} }
      out = append(out, Row{ID: id, Data: m}) }
  \<close>
\<close>

definition readData :: "golib \<Rightarrow> string \<Rightarrow> doc option" where
  "readData L dataStr =
     (case unmarshalMap L dataStr of
        None \<Rightarrow> Some [''_raw'' \<mapsto> GString dataStr]
      | Some m \<Rightarrow> m)"

definition getAllRows :: "golib \<Rightarrow> db \<Rightarrow> Row list" where
  "getAllRows L d = map (\<lambda>(i, dataStr). Row i (readData L dataStr)) (tableSelect (entries d))"

text \<open>
  \<^verbatim>\<open>
  func updateField(db *sql.DB, id int, field string, value interface{}) error {
      var dataStr string
      if err := db.QueryRow("SELECT data FROM entries WHERE id = ?", id).Scan(&dataStr); err != nil {
          return err }
      var m map[string]interface{}
      if err := json.Unmarshal([]byte(dataStr), &m); err != nil { m = map[string]interface{}{} }
      m[field] = value
      js, err := json.Marshal(m)
      if err != nil { return err }
      _, err = db.Exec("UPDATE entries SET data = ? WHERE id = ?", string(js), id)
      return err }
  \<close>
  Stored text \<^verbatim>\<open>null\<close> decodes without error and leaves \<open>m\<close> \<^verbatim>\<open>nil\<close>; the assignment to
  \<open>m[field]\<close> then panics.
\<close>

definition updateField :: "golib \<Rightarrow> int \<Rightarrow> string \<Rightarrow> gval \<Rightarrow> db \<Rightarrow> err option \<times> db" where
  "updateField L k field val d =
     (case tableLookup k (entries d) of
        None \<Rightarrow> (Some ErrNoRows, d)
      | Some dataStr \<Rightarrow>
          (case (case unmarshalMap L dataStr of None \<Rightarrow> Some Map.empty | Some m \<Rightarrow> m) of
             None \<Rightarrow> (Some PanicNilMap, d)
           | Some m \<Rightarrow>
               (case jsonMarshal L (GMap (m(field \<mapsto> val))) of
                  None \<Rightarrow> (Some ErrMarshal, d)
                | Some js \<Rightarrow> (None, d\<lparr>entries := tableUpdate k js (entries d)\<rparr>))))"

text \<open>\<^verbatim>\<open>deleteRow\<close>: \<^verbatim>\<open>DELETE FROM entries WHERE id = ?\<close>.\<close>

definition deleteRow :: "int \<Rightarrow> db \<Rightarrow> err option \<times> db" where
  "deleteRow k d = (None, d\<lparr>entries := tableDelete k (entries d)\<rparr>)"

text \<open>\<^verbatim>\<open>replaceRow\<close>: marshal, then \<^verbatim>\<open>UPDATE entries SET data = ? WHERE id = ?\<close>.\<close>

definition replaceRow :: "golib \<Rightarrow> int \<Rightarrow> doc option \<Rightarrow> db \<Rightarrow> err option \<times> db" where
  "replaceRow L k data d =
     (case jsonMarshal L (mapValue data) of
        None \<Rightarrow> (Some ErrMarshal, d)
      | Some js \<Rightarrow> (None, d\<lparr>entries := tableUpdate k js (entries d)\<rparr>))"

section \<open>View manager\<close>

text \<open>
  \<^verbatim>\<open>
  rows, err := db.Query("SELECT id, name, data FROM views ORDER BY id")
  for rows.Next() {
      ... rows.Scan(&id, &name, &dataStr) ...
      var cols []string
      if err := json.Unmarshal([]byte(dataStr), &cols); err != nil { cols = []string{} }
      out = append(out, View{ID: id, Name: name, Columns: cols}) }
  \<close>
\<close>

definition readCols :: "golib \<Rightarrow> string \<Rightarrow> string list option" where
  "readCols L dataStr = (case unmarshalStrings L dataStr of None \<Rightarrow> Some [] | Some c \<Rightarrow> c)"

definition getAllViews :: "golib \<Rightarrow> db \<Rightarrow> View list" where
  "getAllViews L d =
     map (\<lambda>(i, name, dataStr). View i name (readCols L dataStr)) (tableSelect (views d))"

text \<open>
  \<^verbatim>\<open>
  func insertView(db *sql.DB, name string, cols []string) (int64, error) {
      js, err := json.Marshal(cols)
      if err != nil { return 0, err }
      res, err := db.Exec("INSERT INTO views (name, data) VALUES (?, ?)", name, string(js))
      if err != nil { return 0, err }
      return res.LastInsertId() }
  \<close>
\<close>

definition insertView :: "golib \<Rightarrow> string \<Rightarrow> string list option \<Rightarrow> db \<Rightarrow> (err + int) \<times> db" where
  "insertView L name cols d =
     (case jsonMarshal L (colsValue cols) of
        None \<Rightarrow> (Inl ErrMarshal, d)
      | Some js \<Rightarrow>
          (case tableInsert (name, js) (views d) of
             None \<Rightarrow> (Inl ErrFull, d)
           | Some (i, t) \<Rightarrow> (Inr i, d\<lparr>views := t\<rparr>)))"

text \<open>
  \<^verbatim>\<open>
  func updateView(db *sql.DB, id int, name string, cols []string) error {
      js, err := json.Marshal(cols)
      if err != nil { return err }
      _, err = db.Exec("UPDATE views SET name = ?, data = ? WHERE id = ?", name, string(js), id)
      return err }
  \<close>
\<close>

definition updateView :: "golib \<Rightarrow> int \<Rightarrow> string \<Rightarrow> string list option \<Rightarrow> db \<Rightarrow> err option \<times> db" where
  "updateView L k name cols d =
     (case jsonMarshal L (colsValue cols) of
        None \<Rightarrow> (Some ErrMarshal, d)
      | Some js \<Rightarrow> (None, d\<lparr>views := tableUpdate k (name, js) (views d)\<rparr>))"

text \<open>\<^verbatim>\<open>deleteView\<close>: \<^verbatim>\<open>DELETE FROM views WHERE id = ?\<close>; \<^verbatim>\<open>deleteAllViews\<close>: \<^verbatim>\<open>DELETE FROM views\<close>.\<close>

definition deleteView :: "int \<Rightarrow> db \<Rightarrow> err option \<times> db" where
  "deleteView k d = (None, d\<lparr>views := tableDelete k (views d)\<rparr>)"

definition deleteAllViews :: "db \<Rightarrow> err option \<times> db" where
  "deleteAllViews d = (None, d\<lparr>views := tableClear (views d)\<rparr>)"

section \<open>Legacy migrator\<close>

text \<open>
  The row loop of the migration block of \<^verbatim>\<open>initializeDB\<close>, for one scanned row:
  \<^verbatim>\<open>
  var idInt int64 = 0
  m := map[string]interface{}{}
  for i, col := range colsList {
      val := *(scanArgs[i].(*interface{}))
      if col == "id" {
          switch t := val.(type) {
          case int64: idInt = t
          case int:   idInt = int64(t)
          case nil:   idInt = 0
          default:    fmt.Sscanf(fmt.Sprintf("%v", t), "%d", &idInt) }
          continue }
      if val == nil { m[col] = nil; continue }
      switch v := val.(type) {
      case int64:   m[col] = int(v)
      case float64: m[col] = v
      case []byte:  m[col] = string(v)
      case string:  m[col] = v
      default:      m[col] = fmt.Sprintf("%v", v) } }
  \<close>
  The driver never produces an \<^verbatim>\<open>int\<close>, so that case has no input.
\<close>

definition idValue :: "golib \<Rightarrow> dval \<Rightarrow> int \<Rightarrow> int" where
  "idValue L val idInt =
     (case val of
        DInt64 t \<Rightarrow> t
      | DNil \<Rightarrow> 0
      | _ \<Rightarrow> (case fmtSscanf L (fmtSprintf L val) of None \<Rightarrow> idInt | Some n \<Rightarrow> n))"

definition coerceValue :: "golib \<Rightarrow> dval \<Rightarrow> gval" where
  "coerceValue L val =
     (case val of
        DNil \<Rightarrow> GNil
      | DInt64 v \<Rightarrow> GInt v
      | DFloat64 v \<Rightarrow> GFloat v
      | DBytes v \<Rightarrow> GString v
      | DString v \<Rightarrow> GString v
      | _ \<Rightarrow> GString (fmtSprintf L val))"

fun rowLoop :: "golib \<Rightarrow> (string \<times> dval) list \<Rightarrow> int \<times> doc \<Rightarrow> int \<times> doc" where
  "rowLoop L [] (idInt, m) = (idInt, m)"
| "rowLoop L ((col, val) # rest) (idInt, m) =
     (if col = ''id'' then rowLoop L rest (idValue L val idInt, m)
      else rowLoop L rest (idInt, m(col \<mapsto> coerceValue L val)))"

text \<open>
  The loop reads the old table through the cursor \<open>orow\<close> of
  \<^verbatim>\<open>db.Query(selectSQL)\<close>, which stays open until \<^verbatim>\<open>orow.Next()\<close> has returned false, and
  it writes every new row with \<^verbatim>\<open>db.Exec\<close>, which the connection pool runs on another
  connection, the first one being held by the cursor. What SQLite does with such a write
  depends on the journal mode of the database file; \<^verbatim>\<open>initializeDB\<close> opens the file with
  \<^verbatim>\<open>sql.Open("sqlite3", "./data.db")\<close> and sets none. In the default mode, the rollback
  journal, the write cannot commit while the reader holds its lock: the statement fails
  with \<^verbatim>\<open>database is locked\<close>. In write-ahead-log mode a reader does not block a writer.
  The table \<^verbatim>\<open>entries_new\<close> itself is created before the first \<^verbatim>\<open>orow.Next()\<close>, when the
  cursor holds no lock yet.
\<close>

datatype journalMode = RollbackJournal | WriteAheadLog

definition cursorInsertAt :: "journalMode \<Rightarrow> int \<Rightarrow> 'a \<Rightarrow> 'a table \<Rightarrow> 'a table option" where
  "cursorInsertAt jm i x t = (if jm = RollbackJournal then None else tableInsertAt i x t)"

definition cursorInsert :: "journalMode \<Rightarrow> 'a \<Rightarrow> 'a table \<Rightarrow> (int \<times> 'a table) option" where
  "cursorInsert jm x t = (if jm = RollbackJournal then None else tableInsert x t)"

text \<open>
  The rest of the loop body: a row that does not scan or does not marshal is logged and
  skipped, and so is one whose insert fails.
  \<^verbatim>\<open>
  if err := orow.Scan(scanArgs...); err != nil { log...; continue }
  ...
  js, err := json.Marshal(m)
  if err != nil { log...; continue }
  if idInt > 0 {
      if _, err := db.Exec("INSERT INTO entries_new(id, data) VALUES(?, ?)", idInt, string(js)); err != nil {
          log...; continue }
  } else {
      if _, err := db.Exec("INSERT INTO entries_new(data) VALUES(?)", string(js)); err != nil {
          log...; continue } }
  \<close>
\<close>

definition migrateRow ::
  "golib \<Rightarrow> journalMode \<Rightarrow> string list \<Rightarrow> dval list \<Rightarrow> string table \<Rightarrow> string table" where
  "migrateRow L jm colsList vals t =
     (if length vals \<noteq> length colsList then t
      else
        (let (idInt, m) = rowLoop L (zip colsList vals) (0, Map.empty)
         in case jsonMarshal L (GMap m) of
              None \<Rightarrow> t
            | Some js \<Rightarrow>
                (if idInt > 0
                 then (case cursorInsertAt jm idInt js t of None \<Rightarrow> t | Some t' \<Rightarrow> t')
                 else (case cursorInsert jm js t of None \<Rightarrow> t | Some (i, t') \<Rightarrow> t'))))"

text \<open>
  The rows go into the table \<^verbatim>\<open>entries_new\<close>, created empty before the loop. After the
  loop the cursor is closed and the new table replaces the old one (\<^verbatim>\<open>DROP TABLE entries\<close>,
  \<^verbatim>\<open>ALTER TABLE entries_new RENAME TO entries\<close>), and the counter is set to the largest id
  present:
  \<^verbatim>\<open>
  var maxID sql.NullInt64
  if err := db.QueryRow("SELECT MAX(id) FROM entries").Scan(&maxID); err == nil && maxID.Valid {
      _, _ = db.Exec("INSERT OR REPLACE INTO sqlite_sequence(name, seq) VALUES(?, ?)", "entries", maxID.Int64) }
  \<close>
\<close>

definition resyncSeq :: "string table \<Rightarrow> string table" where
  "resyncSeq t =
     (case map fst (rows t) of
        [] \<Rightarrow> t
      | i # ids \<Rightarrow> t\<lparr>seq := fold max ids i\<rparr>)"

definition migrate ::
  "golib \<Rightarrow> journalMode \<Rightarrow> string list \<Rightarrow> dval list list \<Rightarrow> string table" where
  "migrate L jm colsList legacyRows =
     resyncSeq (fold (migrateRow L jm colsList) legacyRows emptyTable)"

text \<open>
  What \<^verbatim>\<open>initializeDB\<close> finds: no \<^verbatim>\<open>entries\<close> table (it creates an empty one), a table in
  the document layout, or a table given by its column names (\<^verbatim>\<open>PRAGMA table_info\<close>) and by
  what \<^verbatim>\<open>SELECT <columns> FROM entries ORDER BY id\<close> returns, \<open>None\<close> when that query
  fails; and the journal mode of the file. The migration runs when
  \<^verbatim>\<open>!hasData && len(cols) > 0\<close>; when it does not run, or the query fails, the table
  stays as it was and the result is \<open>None\<close>: no document store.
\<close>

datatype entriesOnDisk =
    Absent
  | Unified "string table"
  | Legacy "string list" "dval list list option"

definition hasData :: "string list \<Rightarrow> bool" where
  "hasData cols = (''data'' \<in> set cols)"

definition initializeDB ::
  "golib \<Rightarrow> journalMode \<Rightarrow> entriesOnDisk \<Rightarrow> (string \<times> string) table \<Rightarrow> db option" where
  "initializeDB L jm found vs =
     (case found of
        Absent \<Rightarrow> Some \<lparr>entries = emptyTable, views = vs\<rparr>
      | Unified t \<Rightarrow> Some \<lparr>entries = t, views = vs\<rparr>
      | Legacy cols q \<Rightarrow>
          (if \<not> hasData cols \<and> length cols > 0
           then (case q of
                   None \<Rightarrow> None
                 | Some legacyRows \<Rightarrow> Some \<lparr>entries = migrate L jm cols legacyRows, views = vs\<rparr>)
           else None))"

section \<open>Transfer codec\<close>






text \<open>
  The import handler (\<^verbatim>\<open>openBtn\<close> in \<^verbatim>\<open>createUI\<close>), from the bytes read:
  \<^verbatim>\<open>
  var j interface{}
  if err := json.Unmarshal(data, &j); err != nil { dialog.ShowError(err, win); return }
  // clear existing entries
  if _, err := db.Exec("DELETE FROM entries"); err != nil { ... return }
  switch t := j.(type) {
  case []interface{}:
      var entries []map[string]interface{}
      if err := json.Unmarshal(data, &entries); err != nil { ...; return }
      for _, e := range entries {
          merged := mergeWithSchema(schema, e)
          if _, err := insertRow(db, merged); err != nil { ...; return } }
  case map[string]interface{}:
      if rawEntries, ok := t["entries"]; ok {
          entriesBytes, _ := json.Marshal(rawEntries)
          var entries []map[string]interface{}
          if err := json.Unmarshal(entriesBytes, &entries); err != nil { ...; return }
          for _, e := range entries { ... as above ... } }
      if rawViews, ok := t["views"]; ok {
          viewsBytes, _ := json.Marshal(rawViews)
          var views []struct{ Name string; Columns []string }
          _ = json.Unmarshal(viewsBytes, &views)
          if err := deleteAllViews(db); err != nil { ...; return }
          for _, v := range views {
              if _, err := insertView(db, v.Name, v.Columns); err != nil { ...; return } } }
  default:
      dialog.ShowError(fmt.Errorf("unknown import format"), win)
      return }
  \<close>
  The result is the error shown, if any, and the database afterwards.
\<close>

fun insertEntries :: "golib \<Rightarrow> FieldDef list \<Rightarrow> doc option list \<Rightarrow> db \<Rightarrow> err option \<times> db" where
  "insertEntries L schema [] d = (None, d)"
| "insertEntries L schema (e # es) d =
     (case insertRow L (Some (mergeWithSchema schema e)) d of
        (Inl x, d') \<Rightarrow> (Some x, d')
      | (Inr i, d') \<Rightarrow> insertEntries L schema es d')"

fun insertViews :: "golib \<Rightarrow> (string \<times> string list option) list \<Rightarrow> db \<Rightarrow> err option \<times> db" where
  "insertViews L [] d = (None, d)"
| "insertViews L ((name, cols) # vs) d =
     (case insertView L name cols d of
        (Inl x, d') \<Rightarrow> (Some x, d')
      | (Inr i, d') \<Rightarrow> insertViews L vs d')"

text \<open>A \<^verbatim>\<open>Marshal\<close> error is discarded and leaves no bytes.\<close>

definition marshalBytes :: "golib \<Rightarrow> gval \<Rightarrow> string" where
  "marshalBytes L v = (case jsonMarshal L v of None \<Rightarrow> [] | Some b \<Rightarrow> b)"

definition importEntries :: "golib \<Rightarrow> FieldDef list \<Rightarrow> doc \<Rightarrow> db \<Rightarrow> err option \<times> db" where
  "importEntries L schema t d =
     (case t ''entries'' of
        None \<Rightarrow> (None, d)
      | Some rawEntries \<Rightarrow>
          (case unmarshalMaps L (marshalBytes L rawEntries) of
             None \<Rightarrow> (Some ErrType, d)
           | Some es \<Rightarrow> insertEntries L schema es d))"

definition importViews :: "golib \<Rightarrow> doc \<Rightarrow> db \<Rightarrow> err option \<times> db" where
  "importViews L t d =
     (case t ''views'' of
        None \<Rightarrow> (None, d)
      | Some rawViews \<Rightarrow>
          insertViews L (jsonUnmarshalViews L (marshalBytes L rawViews)) (snd (deleteAllViews d)))"

definition importFile :: "golib \<Rightarrow> FieldDef list \<Rightarrow> string \<Rightarrow> db \<Rightarrow> err option \<times> db" where
  "importFile L schema bytes d =
     (case jsonUnmarshal L bytes of
        None \<Rightarrow> (Some ErrSyntax, d)
      | Some j \<Rightarrow>
          (let d1 = d\<lparr>entries := tableClear (entries d)\<rparr>
           in case j of
                GSlice xs \<Rightarrow>
                  (case unmarshalMaps L bytes of
                     None \<Rightarrow> (Some ErrType, d1)
                   | Some es \<Rightarrow> insertEntries L schema es d1)
              | GMap t \<Rightarrow>
                  (case importEntries L schema t d1 of
                     (Some x, d2) \<Rightarrow> (Some x, d2)
                   | (None, d2) \<Rightarrow> importViews L t d2)
              | _ \<Rightarrow> (Some ErrUnknownFormat, d1)))"

section \<open>What is assumed of \<^verbatim>\<open>encoding/json\<close>\<close>

text \<open>
  Writing a value and reading the text back into an \<^verbatim>\<open>interface{}\<close> gives the value in
  the types the decoder produces: every number a \<^verbatim>\<open>float64\<close>, every slice a
  \<^verbatim>\<open>[]interface{}\<close>, every map with its values read back in the same way.
\<close>

primrec decoded :: "gval \<Rightarrow> gval" where
  "decoded GNil = GNil"
| "decoded (GBool b) = GBool b"
| "decoded (GInt n) = GFloat (of_int n)"
| "decoded (GFloat x) = GFloat x"
| "decoded (GString s) = GString s"
| "decoded (GStrings xs) = GSlice (map GString xs)"
| "decoded (GSlice vs) = GSlice (map decoded vs)"
| "decoded (GMap m) = GMap (map_option decoded \<circ> m)"

text \<open>
  The laws below are the contract of the library on the values it accepts; a library may
  refuse a value (\<open>None\<close>), and the laws say nothing of a refused value.
  \<^item> \<open>codec\<close>: a text that \<^verbatim>\<open>Marshal\<close> or \<^verbatim>\<open>MarshalIndent\<close> wrote for \<open>v\<close> decodes to
    \<open>decoded v\<close>.
  \<^item> \<open>reencodes\<close>: a member of a decoded object can be written again.
  \<^item> \<open>viewsCodec\<close>: the text written for a decoded list of exported views decodes, into the
    list of structs, to the names and columns of these views.
\<close>

definition codec :: "golib \<Rightarrow> bool" where
  "codec L =
     (\<forall>v t. jsonMarshal L v = Some t \<or> jsonMarshalIndent L v = Some t
        \<longrightarrow> jsonUnmarshal L t = Some (decoded v))"





section \<open>Example data\<close>

text \<open>
  A library that knows a handful of values and texts, the stores and the schema of the
  examples below. Its \<^verbatim>\<open>Marshal\<close> refuses every value it does not know.
\<close>

definition demoEntry :: gval where
  "demoEntry = GMap [''n'' \<mapsto> GFloat 0, ''ID'' \<mapsto> GFloat 4]"

definition demoView :: gval where
  "demoView = GMap [''Name'' \<mapsto> GString ''v'', ''Columns'' \<mapsto> GSlice [GString ''n'']]"

definition demoExport :: gval where
  "demoExport =
     GMap [''entries'' \<mapsto> GSlice [GMap [''n'' \<mapsto> GInt 0, ''ID'' \<mapsto> GInt 4]],
           ''views'' \<mapsto> GSlice [GMap [''Name'' \<mapsto> GString ''v'', ''Columns'' \<mapsto> GStrings [''n'']]]]"

definition demoDoc0 :: gval where
  "demoDoc0 = GMap [''a'' \<mapsto> GString ''x'']"

definition demoDoc1 :: gval where
  "demoDoc1 = GMap [''a'' \<mapsto> GString ''x'', ''b'' \<mapsto> GInt 5]"

definition demoDoc2 :: gval where
  "demoDoc2 = GMap [''a'' \<mapsto> GString ''y'', ''b'' \<mapsto> GInt 6]"

definition demoMarshal :: "gval \<Rightarrow> string option" where
  \<open>demoMarshal v =
     (case v of
        GNil \<Rightarrow> Some ''null''
      | GFloat x \<Rightarrow>
          (if x = 0 then Some ''0'' else if x = 4 then Some ''4''
           else if x = 5 then Some ''5'' else if x = 6 then Some ''6'' else None)
      | GString s \<Rightarrow>
          (if s = ''x'' then Some ''"x"'' else if s = ''y'' then Some ''"y"'' else None)
      | GStrings xs \<Rightarrow> (if xs = [''n''] then Some ''["n"]'' else None)
      | GSlice vs \<Rightarrow>
          (case vs of
             [GMap m] \<Rightarrow>
               (if m ''Name'' = None
                then (if GMap m = demoEntry then Some ''[{"ID":4,"n":0}]'' else None)
                else (if GMap m = demoView then Some ''[{"Columns":["n"],"Name":"v"}]'' else None))
           | _ \<Rightarrow> None)
      | GMap m \<Rightarrow>
          (if m ''entries'' \<noteq> None
           then (if v = demoExport then Some ''{"entries":[{"ID":4,"n":0}],"views":[{"Columns":["n"],"Name":"v"}]}'' else None)
           else if m ''ID'' \<noteq> None
           then (if v = demoEntry then Some ''{"ID":4,"n":0}'' else None)
           else if m ''b'' = Some (GInt 5)
           then (if v = demoDoc1 then Some ''{"a":"x","b":5}'' else None)
           else if m ''b'' = Some (GInt 6)
           then (if v = demoDoc2 then Some ''{"a":"y","b":6}'' else None)
           else if m ''a'' \<noteq> None
           then (if v = demoDoc0 then Some ''{"a":"x"}'' else None)
           else None)
      | _ \<Rightarrow> None)\<close>

definition demoUnmarshal :: "string \<Rightarrow> gval option" where
  \<open>demoUnmarshal t =
     (if t = ''null'' then Some GNil
      else if t = ''0'' then Some (GFloat 0)
      else if t = ''4'' then Some (GFloat 4)
      else if t = ''5'' then Some (GFloat 5)
      else if t = ''6'' then Some (GFloat 6)
      else if t = ''"x"'' then Some (GString ''x'')
      else if t = ''"y"'' then Some (GString ''y'')
      else if t = ''["n"]'' then Some (GSlice [GString ''n''])
      else if t = ''{}'' then Some (GMap Map.empty)
      else if t = ''[{"ID":4,"n":0}]'' then Some (GSlice [demoEntry])
      else if t = ''[{"Columns":["n"],"Name":"v"}]'' then Some (GSlice [demoView])
      else if t = ''{"entries":[{"ID":4,"n":0}],"views":[{"Columns":["n"],"Name":"v"}]}''
        then Some (decoded demoExport)
      else if t = ''{"ID":4,"n":0}'' then Some demoEntry
      else if t = ''{"a":"x","b":5}'' then Some (decoded demoDoc1)
      else if t = ''{"a":"y","b":6}'' then Some (decoded demoDoc2)
      else if t = ''{"a":"x"}'' then Some demoDoc0
      else None)\<close>

definition demoUnmarshalViews :: "string \<Rightarrow> (string \<times> string list option) list" where
  \<open>demoUnmarshalViews t =
     (if t = ''[{"Columns":["n"],"Name":"v"}]'' then [(''v'', Some [''n''])] else [])\<close>

definition demoSprintf :: "dval \<Rightarrow> string" where
  "demoSprintf v =
     (case v of
        DString s \<Rightarrow> s
      | DBool b \<Rightarrow> (if b then ''true'' else ''false'')
      | DFloat64 x \<Rightarrow> (if x = 3 / 2 then ''1.5'' else ''0'')
      | _ \<Rightarrow> [])"

definition demoLib :: golib where
  "demoLib = \<lparr>jsonMarshal = demoMarshal, jsonMarshalIndent = demoMarshal,
     jsonUnmarshal = demoUnmarshal, jsonUnmarshalViews = demoUnmarshalViews,
     fmtSprintf = demoSprintf, fmtSscanf = (\<lambda>s. None)\<rparr>"


definition demoSchema :: "FieldDef list" where
  "demoSchema = [\<lparr>Name = ''n'', Type = ''int'', Label = ''n''\<rparr>]"

definition demoDB :: db where
  \<open>demoDB = \<lparr>entries = \<lparr>rows = [(4, ''{}'')], seq = 4\<rparr>,
              views = \<lparr>rows = [(2, ''v'', ''["n"]'')], seq = 2\<rparr>\<rparr>\<close>



definition demoCorrupt :: db where
  "demoCorrupt = \<lparr>entries = \<lparr>rows = [(1, ''oops'')], seq = 1\<rparr>, views = emptyTable\<rparr>"

section \<open>Properties of the pure part\<close>

lemma find_append_split:
  "find P (xs @ ys) = (case find P xs of None \<Rightarrow> find P ys | Some x \<Rightarrow> Some x)"
  by (induction xs) simp_all

lemma emptyRowLoop_apply:
  "emptyRowLoop fs m k =
     (case find (\<lambda>f. Name f = k) (rev fs) of
        Some f \<Rightarrow> Some (zeroValue (Type f))
      | None \<Rightarrow> m k)"
proof (induction fs arbitrary: m)
  case Nil
  show ?case by simp
next
  case (Cons f fs)
  show ?case
    by (cases "find (\<lambda>f. Name f = k) (rev fs)") (simp_all add: Cons.IH find_append_split)
qed

lemma getEmptyRowFromSchema_apply:
  "getEmptyRowFromSchema schema k = map_option (zeroValue \<circ> Type) (fieldNamed schema k)"
  by (simp add: getEmptyRowFromSchema_def fieldNamed_def emptyRowLoop_apply split: option.split)

lemma fieldNamed_eq_None: "fieldNamed schema k = None \<longleftrightarrow> k \<notin> Name ` set schema"
  by (auto simp: fieldNamed_def find_None_iff)

lemma dom_getEmptyRowFromSchema: "dom (getEmptyRowFromSchema schema) = Name ` set schema"
proof -
  have "k \<in> dom (getEmptyRowFromSchema schema) \<longleftrightarrow> k \<in> Name ` set schema" for k
    using fieldNamed_eq_None [of schema k]
    by (cases "fieldNamed schema k") (simp_all add: dom_def getEmptyRowFromSchema_apply)
  then show ?thesis by blast
qed

lemma mergeWithSchema_apply:
  "mergeWithSchema schema data k =
     (case keyOf data k of
        Some v \<Rightarrow> Some v
      | None \<Rightarrow> getEmptyRowFromSchema schema k)"
  by (simp add: mergeWithSchema_def keyOf_def map_add_def split: option.split)

text \<open>
  C1. For every schema and every document (the \<^verbatim>\<open>nil\<close> map included), the merged document
  binds a key of the document to the document's own value, unchanged, whether or not the
  schema names the key; it binds every other key that the schema names to the zero value
  of that field's type (of the last field of that name, should the schema repeat a name);
  and it has no other key. The zero values are \<open>0\<close> for \<open>int\<close>, the empty string for
  \<open>string\<close>, the empty list for \<open>[]string\<close> and the empty string for \<open>link\<close>.
\<close>

theorem mergeWithSchema_defaults_overlaid:
  "mergeWithSchema schema data k =
     (case keyOf data k of
        Some v \<Rightarrow> Some v
      | None \<Rightarrow> map_option (zeroValue \<circ> Type) (fieldNamed schema k))
   \<and> dom (mergeWithSchema schema data)
       = Name ` set schema \<union> (case data of None \<Rightarrow> {} | Some d \<Rightarrow> dom d)
   \<and> zeroValue ''int'' = GInt 0
   \<and> zeroValue ''string'' = GString ''''
   \<and> zeroValue ''[]string'' = GStrings []
   \<and> zeroValue ''link'' = GString ''''"
proof -
  have "dom (mergeWithSchema schema data)
      = Name ` set schema \<union> (case data of None \<Rightarrow> {} | Some d \<Rightarrow> dom d)"
    by (cases data) (simp_all add: mergeWithSchema_def dom_getEmptyRowFromSchema Un_commute)
  moreover have "zeroValue ''int'' = GInt 0" "zeroValue ''string'' = GString ''''"
    "zeroValue ''[]string'' = GStrings []" "zeroValue ''link'' = GString ''''"
    by (simp_all add: zeroValue_def)
  ultimately show ?thesis
    by (simp add: mergeWithSchema_apply getEmptyRowFromSchema_apply split: option.split)
qed

text \<open>
  C2. Merging is idempotent: merging an already merged document against the same schema
  gives the same document.
\<close>

theorem mergeWithSchema_idempotent:
  "mergeWithSchema schema (Some (mergeWithSchema schema data)) = mergeWithSchema schema data"
proof (rule ext)
  fix k
  show "mergeWithSchema schema (Some (mergeWithSchema schema data)) k
      = mergeWithSchema schema data k"
    by (simp add: mergeWithSchema_apply keyOf_def split: option.split)
qed




section \<open>Properties of the schema loader\<close>

text \<open>
  C8 (amended). The legacy path does not apply the rule of the structured path to every
  token. For every type token other than \<open>link\<close>: a token that starts with \<open>[]\<close> is kept
  as it is by the legacy path (the structured path keeps only \<open>[]string\<close> of these and
  degrades the others to \<open>string\<close>); on every other token the two paths agree, keeping
  \<open>int\<close> and \<open>string\<close> and degrading the rest to \<open>string\<close>.
\<close>

theorem legacy_type_rule:
  assumes "typ \<noteq> ''link''"
  shows "normalizeTypeLegacy typ = (if hasPrefix typ ''[]'' then typ else normalizeTypeJSON typ)"
  using assms by (auto simp: normalizeTypeLegacy_def normalizeTypeJSON_def hasPrefix_def)

theorem legacy_type_rule_witness:
  "''[]int'' \<noteq> ''link'' \<and> normalizeTypeLegacy ''[]int'' = ''[]int''
   \<and> normalizeTypeLegacy ''float64'' = normalizeTypeJSON ''float64''"
  using legacy_type_rule [of "''[]int''"] legacy_type_rule [of "''float64''"]
  by (simp add: hasPrefix_def)

theorem legacy_slice_token_counterexample:
  "legacyToken ''[]int'' \<and> normalizeTypeLegacy ''[]int'' \<noteq> normalizeTypeJSON ''[]int''"
  by (simp add: legacyToken_def hasPrefix_def isLetter_def isDigit_def
      normalizeTypeLegacy_def normalizeTypeJSON_def)

section \<open>Tables and decoded values\<close>

lemma unmarshalMap_invalid: "jsonUnmarshal L s = None \<Longrightarrow> unmarshalMap L s = None"
  by (simp add: unmarshalMap_def)

lemma set_tableSelect: "set (tableSelect t) = set (rows t)"
  by (simp add: tableSelect_def)

lemma length_tableSelect: "length (tableSelect t) = length (rows t)"
  by (simp add: tableSelect_def)


lemma readData_written:
  assumes "codec L" and "jsonMarshal L (GMap m) = Some js"
  shows "readData L js = Some (map_option decoded \<circ> m)"
proof -
  have "jsonUnmarshal L js = Some (decoded (GMap m))"
    using assms by (auto simp: codec_def)
  then show ?thesis by (simp add: readData_def unmarshalMap_def)
qed

lemma tableLookup_tableUpdate:
  "tableLookup k t = Some s \<Longrightarrow> tableLookup k (tableUpdate k x t) = Some x"
proof -
  have "find (\<lambda>r. fst r = k) (map (\<lambda>r. if fst r = k then (k, x) else r) rs)
      = map_option (\<lambda>r. (k, x)) (find (\<lambda>r. fst r = k) rs)" for rs :: "(int \<times> 'a) list"
    by (induction rs) auto
  then show "tableLookup k t = Some s \<Longrightarrow> tableLookup k (tableUpdate k x t) = Some x"
    by (auto simp: tableLookup_def tableUpdate_def)
qed

lemma readCols_written:
  assumes "codec L" and "jsonMarshal L (colsValue cols) = Some js"
  shows "readCols L js = cols"
proof -
  have u: "jsonUnmarshal L js = Some (decoded (colsValue cols))"
    using assms by (auto simp: codec_def)
  have "those (map stringElem (map GString xs)) = Some xs" for xs
    by (induction xs) simp_all
  then show ?thesis
    using u by (cases cols) (simp_all add: readCols_def unmarshalStrings_def colsValue_def)
qed






section \<open>The example library keeps the laws\<close>

lemma demoUnmarshal_simps:
  \<open>demoUnmarshal ''null'' = Some GNil\<close>
  \<open>demoUnmarshal ''0'' = Some (GFloat 0)\<close>
  \<open>demoUnmarshal ''4'' = Some (GFloat 4)\<close>
  \<open>demoUnmarshal ''5'' = Some (GFloat 5)\<close>
  \<open>demoUnmarshal ''6'' = Some (GFloat 6)\<close>
  \<open>demoUnmarshal ''"x"'' = Some (GString ''x'')\<close>
  \<open>demoUnmarshal ''"y"'' = Some (GString ''y'')\<close>
  \<open>demoUnmarshal ''["n"]'' = Some (GSlice [GString ''n''])\<close>
  \<open>demoUnmarshal ''{}'' = Some (GMap Map.empty)\<close>
  \<open>demoUnmarshal ''[{"ID":4,"n":0}]'' = Some (GSlice [demoEntry])\<close>
  \<open>demoUnmarshal ''[{"Columns":["n"],"Name":"v"}]'' = Some (GSlice [demoView])\<close>
  \<open>demoUnmarshal ''{"entries":[{"ID":4,"n":0}],"views":[{"Columns":["n"],"Name":"v"}]}''
     = Some (decoded demoExport)\<close>
  \<open>demoUnmarshal ''{"ID":4,"n":0}'' = Some demoEntry\<close>
  \<open>demoUnmarshal ''{"a":"x","b":5}'' = Some (decoded demoDoc1)\<close>
  \<open>demoUnmarshal ''{"a":"y","b":6}'' = Some (decoded demoDoc2)\<close>
  \<open>demoUnmarshal ''{"a":"x"}'' = Some demoDoc0\<close>
  \<open>demoUnmarshal ''oops'' = None\<close>
  by (simp_all add: demoUnmarshal_def)

lemma decoded_demoEntry: "decoded demoEntry = demoEntry"
  by (simp add: demoEntry_def)

lemma decoded_demoView: "decoded demoView = demoView"
  by (simp add: demoView_def)

lemma decoded_demoDoc0: "decoded demoDoc0 = demoDoc0"
  by (simp add: demoDoc0_def)

lemma demo_law:
  assumes "demoMarshal v = Some t"
  shows "demoUnmarshal t = Some (decoded v)"
proof (cases v)
  case GNil
  then show ?thesis using assms by (auto simp: demoMarshal_def demoUnmarshal_simps)
next
  case (GBool b)
  then show ?thesis using assms by (simp add: demoMarshal_def)
next
  case (GInt n)
  then show ?thesis using assms by (simp add: demoMarshal_def)
next
  case (GFloat x)
  then show ?thesis
    using assms by (auto simp: demoMarshal_def demoUnmarshal_simps split: if_split_asm)
next
  case (GString s)
  then show ?thesis
    using assms by (auto simp: demoMarshal_def demoUnmarshal_simps split: if_split_asm)
next
  case (GStrings xs)
  then show ?thesis
    using assms by (auto simp: demoMarshal_def demoUnmarshal_simps split: if_split_asm)
next
  case (GSlice vs)
  show ?thesis
  proof (cases "vs = [demoEntry]")
    case True
    then have "t = ''[{\"ID\":4,\"n\":0}]''"
      using assms GSlice by (simp add: demoMarshal_def demoEntry_def)
    then show ?thesis
      using True GSlice by (simp add: demoUnmarshal_simps decoded_demoEntry)
  next
    case ne: False
    show ?thesis
    proof (cases "vs = [demoView]")
      case True
      then have "t = ''[{\"Columns\":[\"n\"],\"Name\":\"v\"}]''"
        using assms GSlice by (simp add: demoMarshal_def demoView_def)
      then show ?thesis
        using True GSlice by (simp add: demoUnmarshal_simps decoded_demoView)
    next
      case False
      then have "demoMarshal v = None"
        using ne GSlice
        by (simp add: demoMarshal_def split: list.split gval.split)
      then show ?thesis using assms by simp
    qed
  qed
next
  case (GMap m)
  consider "v = demoExport" | "v = demoEntry" | "v = demoDoc1" | "v = demoDoc2" | "v = demoDoc0"
    | "v \<noteq> demoExport" "v \<noteq> demoEntry" "v \<noteq> demoDoc1" "v \<noteq> demoDoc2" "v \<noteq> demoDoc0"
    by blast
  then show ?thesis
  proof cases
    case 1
    then have "t = ''{\"entries\":[{\"ID\":4,\"n\":0}],\"views\":[{\"Columns\":[\"n\"],\"Name\":\"v\"}]}''"
      using assms by (simp add: demoMarshal_def demoExport_def)
    then show ?thesis using 1 by (simp add: demoUnmarshal_simps)
  next
    case 2
    then have "t = ''{\"ID\":4,\"n\":0}''"
      using assms by (simp add: demoMarshal_def demoEntry_def)
    then show ?thesis using 2 by (simp add: demoUnmarshal_simps decoded_demoEntry)
  next
    case 3
    then have "t = ''{\"a\":\"x\",\"b\":5}''"
      using assms by (simp add: demoMarshal_def demoDoc1_def)
    then show ?thesis using 3 by (simp add: demoUnmarshal_simps)
  next
    case 4
    then have "t = ''{\"a\":\"y\",\"b\":6}''"
      using assms by (simp add: demoMarshal_def demoDoc2_def)
    then show ?thesis using 4 by (simp add: demoUnmarshal_simps)
  next
    case 5
    then have "t = ''{\"a\":\"x\"}''"
      using assms by (simp add: demoMarshal_def demoDoc0_def)
    then show ?thesis using 5 by (simp add: demoUnmarshal_simps decoded_demoDoc0)
  next
    case 6
    then have "demoMarshal v = None"
      using GMap by (simp add: demoMarshal_def)
    then show ?thesis using assms by simp
  qed
qed

lemma codec_demoLib: "codec demoLib"
  using demo_law by (simp add: codec_def demoLib_def)







section \<open>Properties of the legacy migrator\<close>

lemma rowLoop_id: "snd (rowLoop L cvs (i, m)) ''id'' = m ''id''"
proof (induction cvs arbitrary: i m)
  case Nil
  show ?case by simp
next
  case (Cons cv cvs)
  obtain c v where cv: "cv = (c, v)" by (cases cv)
  show ?case by (simp add: cv Cons.IH)
qed

lemma rowLoop_other:
  "col \<noteq> ''id'' \<Longrightarrow> snd (rowLoop L cvs (i, m)) col =
     (case map_of (rev cvs) col of None \<Rightarrow> m col | Some v \<Rightarrow> Some (coerceValue L v))"
proof (induction cvs arbitrary: i m)
  case Nil
  show ?case by simp
next
  case (Cons cv cvs)
  obtain c v where cv: "cv = (c, v)" by (cases cv)
  show ?case
    using Cons.prems by (auto simp: cv Cons.IH map_add_def split: option.split)
qed

lemma rowLoop_apply:
  "snd (rowLoop L cvs (i, m)) col =
     (if col = ''id'' then m col
      else case map_of (rev cvs) col of None \<Rightarrow> m col | Some v \<Rightarrow> Some (coerceValue L v))"
  by (simp add: rowLoop_id rowLoop_other)

text \<open>
  C4 (amended). In the document built from a legacy row, the id column is not copied, and
  every other column is bound to the coerced value of that column (of its last occurrence
  in the row): an integer passes through as an integer, a floating-point number passes
  through unchanged as a number, bytes and text become a string, null stays null, and a
  value of any other type becomes the string that \<^verbatim>\<open>%v\<close> prints for it.
\<close>

theorem migration_row_coercion:
  "snd (rowLoop L cvs (0, Map.empty)) col =
     (if col = ''id'' then None else map_option (coerceValue L) (map_of (rev cvs) col))
   \<and> coerceValue L (DInt64 n) = GInt n
   \<and> coerceValue L (DFloat64 x) = GFloat x
   \<and> coerceValue L (DBytes s) = GString s
   \<and> coerceValue L (DString s) = GString s
   \<and> coerceValue L DNil = GNil
   \<and> coerceValue L (DBool b) = GString (fmtSprintf L (DBool b))
   \<and> coerceValue L (DTime t) = GString (fmtSprintf L (DTime t))"
  by (simp add: rowLoop_apply coerceValue_def split: option.split)

theorem migration_float_counterexample:
  "coerceValue demoLib (DFloat64 (3 / 2)) = GFloat (3 / 2)
   \<and> coerceValue demoLib (DFloat64 (3 / 2)) \<noteq> GString (fmtSprintf demoLib (DFloat64 (3 / 2)))"
  by (simp add: coerceValue_def)

text \<open>
  The migration of the example table when the writes of the loop are not blocked (the
  file is in write-ahead-log mode): this is what the loop is written to do. The two
  documents are stored under the ids 1 and 2 and the next insert gets id 3.
\<close>

lemma migration_example_unblocked:
  assumes "codec L"
    and "txt = DString \<or> txt = DBytes"
    and "jsonMarshal L (GMap [''a'' \<mapsto> GString ''x'', ''b'' \<mapsto> GInt 5]) = Some t1"
    and "jsonMarshal L (GMap [''a'' \<mapsto> GString ''y'', ''b'' \<mapsto> GInt 6]) = Some t2"
    and "jsonMarshal L (mapValue data) = Some js"
  shows "initializeDB L WriteAheadLog
           (Legacy [''id'', ''a'', ''b'']
              (Some [[DInt64 1, txt ''x'', DInt64 5], [DInt64 2, txt ''y'', DInt64 6]])) vs
         = Some \<lparr>entries = \<lparr>rows = [(1, t1), (2, t2)], seq = 2\<rparr>, views = vs\<rparr>
       \<and> getAllRows L \<lparr>entries = \<lparr>rows = [(1, t1), (2, t2)], seq = 2\<rparr>, views = vs\<rparr>
         = [Row 1 (Some [''a'' \<mapsto> GString ''x'', ''b'' \<mapsto> GFloat 5]),
            Row 2 (Some [''a'' \<mapsto> GString ''y'', ''b'' \<mapsto> GFloat 6])]
       \<and> fst (insertRow L data \<lparr>entries = \<lparr>rows = [(1, t1), (2, t2)], seq = 2\<rparr>, views = vs\<rparr>)
         = Inr 3"
proof -
  have c: "coerceValue L (txt s) = GString s" for s
    using assms(2) by (auto simp: coerceValue_def)
  have r1: "rowLoop L (zip [''id'', ''a'', ''b''] [DInt64 1, txt ''x'', DInt64 5]) (0, Map.empty)
      = (1, [''a'' \<mapsto> GString ''x'', ''b'' \<mapsto> GInt 5])"
    by (simp add: idValue_def c) (simp add: coerceValue_def)
  have r2: "rowLoop L (zip [''id'', ''a'', ''b''] [DInt64 2, txt ''y'', DInt64 6]) (0, Map.empty)
      = (2, [''a'' \<mapsto> GString ''y'', ''b'' \<mapsto> GInt 6])"
    by (simp add: idValue_def c) (simp add: coerceValue_def)
  have m1: "migrateRow L WriteAheadLog [''id'', ''a'', ''b''] [DInt64 1, txt ''x'', DInt64 5]
        emptyTable
      = \<lparr>rows = [(1, t1)], seq = 1\<rparr>"
    unfolding migrateRow_def r1
    by (simp add: assms(3) cursorInsertAt_def tableInsertAt_def emptyTable_def)
  have m2: "migrateRow L WriteAheadLog [''id'', ''a'', ''b''] [DInt64 2, txt ''y'', DInt64 6]
        \<lparr>rows = [(1, t1)], seq = 1\<rparr>
      = \<lparr>rows = [(1, t1), (2, t2)], seq = 2\<rparr>"
    unfolding migrateRow_def r2
    by (simp add: assms(4) cursorInsertAt_def tableInsertAt_def)
  have mg: "migrate L WriteAheadLog [''id'', ''a'', ''b'']
        [[DInt64 1, txt ''x'', DInt64 5], [DInt64 2, txt ''y'', DInt64 6]]
      = \<lparr>rows = [(1, t1), (2, t2)], seq = 2\<rparr>"
    by (simp add: migrate_def m1 m2 resyncSeq_def)
  have i: "initializeDB L WriteAheadLog
           (Legacy [''id'', ''a'', ''b'']
              (Some [[DInt64 1, txt ''x'', DInt64 5], [DInt64 2, txt ''y'', DInt64 6]])) vs
         = Some \<lparr>entries = \<lparr>rows = [(1, t1), (2, t2)], seq = 2\<rparr>, views = vs\<rparr>"
    by (simp add: initializeDB_def hasData_def mg)
  have d1: "readData L t1 = Some [''a'' \<mapsto> GString ''x'', ''b'' \<mapsto> GFloat 5]"
    using readData_written [OF assms(1,3)] by simp
  have d2: "readData L t2 = Some [''a'' \<mapsto> GString ''y'', ''b'' \<mapsto> GFloat 6]"
    using readData_written [OF assms(1,4)] by simp
  have g: "getAllRows L \<lparr>entries = \<lparr>rows = [(1, t1), (2, t2)], seq = 2\<rparr>, views = vs\<rparr>
         = [Row 1 (Some [''a'' \<mapsto> GString ''x'', ''b'' \<mapsto> GFloat 5]),
            Row 2 (Some [''a'' \<mapsto> GString ''y'', ''b'' \<mapsto> GFloat 6])]"
    by (simp add: getAllRows_def tableSelect_def d1 d2)
  have n: "fst (insertRow L data \<lparr>entries = \<lparr>rows = [(1, t1), (2, t2)], seq = 2\<rparr>, views = vs\<rparr>)
         = Inr 3"
    by (simp add: insertRow_def assms(5) tableInsert_def lastRowid_def maxRowid_def)
  show ?thesis using i g n by simp
qed

text \<open>The example library meets the assumptions of this lemma.\<close>

lemma migration_example_unblocked_demo:
  \<open>initializeDB demoLib WriteAheadLog
           (Legacy [''id'', ''a'', ''b'']
              (Some [[DInt64 1, DString ''x'', DInt64 5], [DInt64 2, DString ''y'', DInt64 6]]))
           emptyTable
         = Some \<lparr>entries = \<lparr>rows = [(1, ''{"a":"x","b":5}''), (2, ''{"a":"y","b":6}'')], seq = 2\<rparr>,
                 views = emptyTable\<rparr>\<close>
proof -
  have 1: \<open>jsonMarshal demoLib (GMap [''a'' \<mapsto> GString ''x'', ''b'' \<mapsto> GInt 5]) = Some ''{"a":"x","b":5}''\<close>
    by (simp add: demoLib_def demoMarshal_def demoDoc1_def)
  have 2: \<open>jsonMarshal demoLib (GMap [''a'' \<mapsto> GString ''y'', ''b'' \<mapsto> GInt 6]) = Some ''{"a":"y","b":6}''\<close>
    by (simp add: demoLib_def demoMarshal_def demoDoc2_def)
  have 3: \<open>jsonMarshal demoLib (mapValue (Some [''a'' \<mapsto> GString ''x''])) = Some ''{"a":"x"}''\<close>
    by (simp add: demoLib_def demoMarshal_def demoDoc0_def mapValue_def)
  have 0: "DString = DString \<or> DString = DBytes" by simp
  show ?thesis
    using migration_example_unblocked [OF codec_demoLib 0 1 2 3, of emptyTable] by blast
qed

text \<open>In the default journal mode every insert of the loop fails, whatever the rows are.\<close>

lemma migrateRow_locked: "migrateRow L RollbackJournal colsList vals t = t"
  by (simp add: migrateRow_def cursorInsertAt_def cursorInsert_def split: prod.split option.split)

lemma migrate_locked: "migrate L RollbackJournal colsList legacyRows = emptyTable"
proof -
  have "fold (migrateRow L RollbackJournal colsList) legacyRows t = t" for t
    by (induction legacyRows) (simp_all add: migrateRow_locked)
  then show ?thesis
    by (simp add: migrate_def resyncSeq_def emptyTable_def)
qed

text \<open>
  C5. The code does not do what the claim says when the database file is in the default
  journal mode. For the legacy table with columns \<open>(id, a, b)\<close> and rows \<open>(1, "x", 5)\<close>,
  \<open>(2, "y", 6)\<close>, both inserts of the migration loop fail while the cursor over the old
  table is open and are skipped, and the old table is dropped: the migrated table is
  empty, listing returns no entry, and the next insert gets id 1, where the claim has two
  entries with ids 1 and 2 and the next id 3.
\<close>

theorem migration_example_loses_rows:
  "initializeDB L RollbackJournal
       (Legacy [''id'', ''a'', ''b'']
          (Some [[DInt64 1, DString ''x'', DInt64 5], [DInt64 2, DString ''y'', DInt64 6]])) vs
     = Some \<lparr>entries = emptyTable, views = vs\<rparr>
   \<and> getAllRows L \<lparr>entries = emptyTable, views = vs\<rparr> = []
   \<and> insertRow L data \<lparr>entries = emptyTable, views = vs\<rparr>
     = (case jsonMarshal L (mapValue data) of
          None \<Rightarrow> (Inl ErrMarshal, \<lparr>entries = emptyTable, views = vs\<rparr>)
        | Some js \<Rightarrow> (Inr 1, \<lparr>entries = \<lparr>rows = [(1, js)], seq = 1\<rparr>, views = vs\<rparr>))"
proof -
  have "initializeDB L RollbackJournal
       (Legacy [''id'', ''a'', ''b'']
          (Some [[DInt64 1, DString ''x'', DInt64 5], [DInt64 2, DString ''y'', DInt64 6]])) vs
     = Some \<lparr>entries = emptyTable, views = vs\<rparr>"
    by (simp add: initializeDB_def hasData_def migrate_locked)
  moreover have "getAllRows L \<lparr>entries = emptyTable, views = vs\<rparr> = []"
    by (simp add: getAllRows_def tableSelect_def emptyTable_def)
  moreover have "insertRow L data \<lparr>entries = emptyTable, views = vs\<rparr>
     = (case jsonMarshal L (mapValue data) of
          None \<Rightarrow> (Inl ErrMarshal, \<lparr>entries = emptyTable, views = vs\<rparr>)
        | Some js \<Rightarrow> (Inr 1, \<lparr>entries = \<lparr>rows = [(1, js)], seq = 1\<rparr>, views = vs\<rparr>))"
    by (simp add: insertRow_def tableInsert_def lastRowid_def maxRowid_def emptyTable_def
        split: option.split)
  ultimately show ?thesis by blast
qed

section \<open>Properties of the document store\<close>

text \<open>
  C9. A stored row whose text is not valid JSON is listed, with the text itself under the
  key \<open>_raw\<close>; listing returns as many rows as the table holds.
\<close>

theorem getAllRows_keeps_invalid_json:
  assumes "(i, s) \<in> set (rows (entries d))" and "jsonUnmarshal L s = None"
  shows "Row i (Some [''_raw'' \<mapsto> GString s]) \<in> set (getAllRows L d)
       \<and> length (getAllRows L d) = length (rows (entries d))"
proof -
  have "readData L s = Some [''_raw'' \<mapsto> GString s]"
    by (simp add: readData_def unmarshalMap_invalid [OF assms(2)])
  moreover have "(i, s) \<in> set (tableSelect (entries d))"
    using assms(1) by (simp add: set_tableSelect)
  ultimately have "Row i (Some [''_raw'' \<mapsto> GString s]) \<in> set (getAllRows L d)"
    by (force simp: getAllRows_def)
  then show ?thesis
    by (simp add: getAllRows_def length_tableSelect)
qed

theorem getAllRows_keeps_invalid_json_witness:
  "(1, ''oops'') \<in> set (rows (entries demoCorrupt)) \<and> jsonUnmarshal demoLib ''oops'' = None
   \<and> Row 1 (Some [''_raw'' \<mapsto> GString ''oops'']) \<in> set (getAllRows demoLib demoCorrupt)
   \<and> length (getAllRows demoLib demoCorrupt) = 1"
proof -
  have 1: "(1, ''oops'') \<in> set (rows (entries demoCorrupt))"
    by (simp add: demoCorrupt_def)
  have 2: "jsonUnmarshal demoLib ''oops'' = None"
    by (simp add: demoLib_def demoUnmarshal_simps)
  show ?thesis
    using getAllRows_keeps_invalid_json [OF 1 2] 1 2 by (simp add: demoCorrupt_def)
qed

text \<open>
  C10. When the text stored under an id is not valid JSON, \<^verbatim>\<open>updateField\<close> reports no
  error: it writes back the text of the one-key document \<open>{field: value}\<close>, which is what
  the row holds and what is read from it afterwards; the old text is gone.
\<close>

theorem updateField_invalid_json:
  assumes "codec L"
    and "tableLookup k (entries d) = Some s"
    and "jsonUnmarshal L s = None"
    and "jsonMarshal L (GMap [field \<mapsto> val]) = Some js"
  shows "updateField L k field val d = (None, d\<lparr>entries := tableUpdate k js (entries d)\<rparr>)
       \<and> tableLookup k (entries (snd (updateField L k field val d))) = Some js
       \<and> readData L js = Some [field \<mapsto> decoded val]"
proof -
  have "updateField L k field val d = (None, d\<lparr>entries := tableUpdate k js (entries d)\<rparr>)"
    using assms(2,4) by (simp add: updateField_def unmarshalMap_invalid [OF assms(3)])
  moreover have "readData L js = Some [field \<mapsto> decoded val]"
    using readData_written [OF assms(1,4)] by simp
  ultimately show ?thesis
    using tableLookup_tableUpdate [OF assms(2)] by simp
qed

theorem updateField_invalid_json_witness:
  \<open>codec demoLib \<and> tableLookup 1 (entries demoCorrupt) = Some ''oops''
   \<and> jsonUnmarshal demoLib ''oops'' = None
   \<and> jsonMarshal demoLib (GMap [''a'' \<mapsto> GString ''x'']) = Some ''{"a":"x"}''
   \<and> updateField demoLib 1 ''a'' (GString ''x'') demoCorrupt
       = (None, demoCorrupt\<lparr>entries := tableUpdate 1 ''{"a":"x"}'' (entries demoCorrupt)\<rparr>)
   \<and> tableLookup 1 (entries (snd (updateField demoLib 1 ''a'' (GString ''x'') demoCorrupt)))
       = Some ''{"a":"x"}''
   \<and> readData demoLib ''{"a":"x"}'' = Some [''a'' \<mapsto> GString ''x'']\<close>
proof -
  have 1: "tableLookup 1 (entries demoCorrupt) = Some ''oops''"
    by (simp add: demoCorrupt_def tableLookup_def)
  have 2: "jsonUnmarshal demoLib ''oops'' = None"
    by (simp add: demoLib_def demoUnmarshal_simps)
  have 3: \<open>jsonMarshal demoLib (GMap [''a'' \<mapsto> GString ''x'']) = Some ''{"a":"x"}''\<close>
    by (simp add: demoLib_def demoMarshal_def demoDoc0_def)
  note th = updateField_invalid_json [OF codec_demoLib 1 2 3]
  have \<open>readData demoLib ''{"a":"x"}'' = Some [''a'' \<mapsto> GString ''x'']\<close>
    using th by simp
  then show ?thesis
    using th codec_demoLib 1 2 3 by blast
qed

section \<open>Properties of the view manager\<close>

text \<open>
  C7 (amended). \<^verbatim>\<open>updateView\<close> does not fail on an id that is not in the views table:
  whenever the column list is written (a list of strings always is), it returns no error
  for every id. An id that is not present leaves the table unchanged; a view with the id
  is listed afterwards with the new name and the new columns.
\<close>

theorem updateView_never_fails:
  assumes "codec L" and "jsonMarshal L (colsValue cols) = Some js"
  shows "updateView L k name cols d = (None, d\<lparr>views := tableUpdate k (name, js) (views d)\<rparr>)
       \<and> (k \<notin> fst ` set (rows (views d)) \<longrightarrow> snd (updateView L k name cols d) = d)
       \<and> (k \<in> fst ` set (rows (views d)) \<longrightarrow>
            View k name cols \<in> set (getAllViews L (snd (updateView L k name cols d))))"
proof -
  have 1: "updateView L k name cols d = (None, d\<lparr>views := tableUpdate k (name, js) (views d)\<rparr>)"
    using assms(2) by (simp add: updateView_def)
  have "map (\<lambda>r. if fst r = k then (k, x) else r) rs = rs"
    if "k \<notin> fst ` set rs" for rs :: "(int \<times> string \<times> string) list" and x
    using that by (induction rs) auto
  then have 2: "k \<notin> fst ` set (rows (views d)) \<Longrightarrow> tableUpdate k (name, js) (views d) = views d"
    by (simp add: tableUpdate_def)
  have 3: "View k name cols \<in> set (getAllViews L (d\<lparr>views := tableUpdate k (name, js) (views d)\<rparr>))"
    if "k \<in> fst ` set (rows (views d))"
  proof -
    have "(k, name, js) \<in> set (rows (tableUpdate k (name, js) (views d)))"
      using that by (force simp: tableUpdate_def)
    then have "(k, name, js) \<in> set (tableSelect (tableUpdate k (name, js) (views d)))"
      by (simp add: set_tableSelect)
    then show ?thesis
      using readCols_written [OF assms] by (force simp: getAllViews_def)
  qed
  show ?thesis using 1 2 3 by simp
qed

theorem updateView_never_fails_witness:
  \<open>codec demoLib \<and> jsonMarshal demoLib (colsValue (Some [''n''])) = Some ''["n"]''
   \<and> 2 \<in> fst ` set (rows (views demoDB))
   \<and> updateView demoLib 2 ''w'' (Some [''n'']) demoDB
       = (None, demoDB\<lparr>views := tableUpdate 2 (''w'', ''["n"]'') (views demoDB)\<rparr>)
   \<and> View 2 ''w'' (Some [''n''])
       \<in> set (getAllViews demoLib (snd (updateView demoLib 2 ''w'' (Some [''n'']) demoDB)))
   \<and> 7 \<notin> fst ` set (rows (views demoDB))
   \<and> fst (updateView demoLib 7 ''w'' (Some [''n'']) demoDB) = None
   \<and> snd (updateView demoLib 7 ''w'' (Some [''n'']) demoDB) = demoDB\<close>
proof -
  have 1: \<open>jsonMarshal demoLib (colsValue (Some [''n''])) = Some ''["n"]''\<close>
    by (simp add: demoLib_def demoMarshal_def colsValue_def)
  have 2: "2 \<in> fst ` set (rows (views demoDB))"
    by (simp add: demoDB_def)
  have 7: "7 \<notin> fst ` set (rows (views demoDB))"
    by (simp add: demoDB_def)
  note present = updateView_never_fails [OF codec_demoLib 1, of 2 "''w''" demoDB]
  note missing = updateView_never_fails [OF codec_demoLib 1, of 7 "''w''" demoDB]
  have "fst (updateView demoLib 7 ''w'' (Some [''n'']) demoDB) = None"
    using missing by simp
  then show ?thesis
    using present missing codec_demoLib 1 2 7 by blast
qed

theorem updateView_missing_id_counterexample:
  "7 \<notin> fst ` set (rows (views demoDB))
   \<and> fst (updateView demoLib 7 ''w'' (Some [''n'']) demoDB) = None
   \<and> snd (updateView demoLib 7 ''w'' (Some [''n'']) demoDB) = demoDB"
  by (simp add: updateView_def demoLib_def demoMarshal_def colsValue_def demoDB_def
      tableUpdate_def)

section \<open>Properties of the transfer codec\<close>

text \<open>
  C6 (amended). When the bytes parse as JSON and the top-level value is neither an array
  nor an object, the import reports a format error. The entries are deleted as soon as
  the bytes have parsed, before the shape is looked at: after the format error the entries
  table is empty, and the views are as they were.
\<close>

theorem importFile_unknown_format:
  assumes "jsonUnmarshal L bytes = Some j"
    and "\<forall>xs. j \<noteq> GSlice xs" and "\<forall>t. j \<noteq> GMap t"
  shows "importFile L schema bytes d
           = (Some ErrUnknownFormat, d\<lparr>entries := tableClear (entries d)\<rparr>)
       \<and> rows (entries (snd (importFile L schema bytes d))) = []
       \<and> views (snd (importFile L schema bytes d)) = views d"
  using assms by (cases j) (simp_all add: importFile_def tableClear_def)

theorem importFile_unknown_format_witness:
  "jsonUnmarshal demoLib ''4'' = Some (GFloat 4)
   \<and> importFile demoLib demoSchema ''4'' demoDB
       = (Some ErrUnknownFormat, demoDB\<lparr>entries := tableClear (entries demoDB)\<rparr>)
   \<and> rows (entries (snd (importFile demoLib demoSchema ''4'' demoDB))) = []
   \<and> views (snd (importFile demoLib demoSchema ''4'' demoDB)) = views demoDB"
proof -
  have 1: "jsonUnmarshal demoLib ''4'' = Some (GFloat 4)"
    by (simp add: demoLib_def demoUnmarshal_simps)
  show ?thesis
    using importFile_unknown_format [OF 1, of demoSchema demoDB] 1 by blast
qed

theorem importFile_format_error_counterexample:
  \<open>jsonUnmarshal demoLib ''4'' = Some (GFloat 4)
   \<and> fst (importFile demoLib demoSchema ''4'' demoDB) = Some ErrUnknownFormat
   \<and> rows (entries demoDB) = [(4, ''{}'')]
   \<and> rows (entries (snd (importFile demoLib demoSchema ''4'' demoDB))) = []\<close>
  by (simp add: importFile_def demoLib_def demoUnmarshal_simps demoDB_def tableClear_def)


lemma insertRow_err:
  assumes "insertRow L data d = (Inl x, d')"
  shows "d' = d"
  using assms by (auto simp: insertRow_def split: option.splits prod.splits)











text \<open>A freshly initialised store, with no views, is the empty database.\<close>

lemma initializeDB_fresh: "initializeDB L jm Absent emptyTable = Some emptyDB"
  by (simp add: initializeDB_def emptyDB_def)
















end
